theory Spec2Isabelle
  imports Complex_Main
begin

section \<open>Common vocabulary\<close>

text \<open>
  The repository is Python. Exceptions are values of the type \<open>error\<close>; a function that
  can raise returns \<open>error + 'a\<close>, with \<open>Inl\<close> for the exception.
\<close>

datatype error =
    OSError | AttributeError | KeyError | ValueError | TypeError | IndexError
  | UnboundLocalError | ShapeMismatchError

text \<open>
  \<open>os.path.join\<close> on POSIX, for two and for three components: a component that starts
  with the separator replaces what was joined so far; otherwise it is appended, with a
  separator unless the path so far is empty or already ends with one.
\<close>

definition join2 :: "string \<Rightarrow> string \<Rightarrow> string" where
  "join2 a b =
     (if b \<noteq> [] \<and> hd b = CHR ''/'' then b
      else if a = [] \<or> last a = CHR ''/'' then a @ b
      else a @ ''/'' @ b)"

definition join3 :: "string \<Rightarrow> string \<Rightarrow> string \<Rightarrow> string" where
  "join3 a b c = join2 (join2 a b) c"

text \<open>
  \<open>x or default\<close> for an optional directory argument: \<open>None\<close> and the empty string are
  both falsy.
\<close>

definition py_or :: "string option \<Rightarrow> string \<Rightarrow> string" where
  "py_or x dflt = (case x of None \<Rightarrow> dflt | Some s \<Rightarrow> (if s = [] then dflt else s))"

section \<open>bounding\_box.py: the image dictionaries\<close>

subsection \<open>File names\<close>

text \<open>
  \<open>str.rfind\<close> for one character: the index of its last occurrence, or \<open>-1\<close>.
\<close>

fun rfind_from :: "char \<Rightarrow> string \<Rightarrow> nat \<Rightarrow> int \<Rightarrow> int" where
  "rfind_from c [] i acc = acc"
| "rfind_from c (x # xs) i acc = rfind_from c xs (Suc i) (if x = c then int i else acc)"

definition rfind :: "char \<Rightarrow> string \<Rightarrow> int" where
  "rfind c s = rfind_from c s 0 (- 1)"

text \<open>
  \<open>splitext(p)[0]\<close>: the path is cut at its last dot when that dot comes after the last
  separator and some character between the two is not a dot (leading dots of the file
  name do not start an extension); otherwise the whole path is the root.
\<close>

definition splitext_root :: "string \<Rightarrow> string" where
  "splitext_root p =
     (let sepIndex = rfind (CHR ''/'') p;
          dotIndex = rfind (CHR ''.'') p
      in if dotIndex > sepIndex \<and>
            list_ex (\<lambda>ch. ch \<noteq> CHR ''.'')
              (take (nat dotIndex - nat (sepIndex + 1)) (drop (nat (sepIndex + 1)) p))
         then take (nat dotIndex) p
         else p)"

text \<open>
  \<open>re.compile(r'\d+').search(s)\<close>: the first maximal run of digits of \<open>s\<close>, or \<open>None\<close>
  when \<open>s\<close> has no digit. Characters are bytes here, so the digits are the ASCII ones.
\<close>

definition is_digit :: "char \<Rightarrow> bool" where
  "is_digit c = (c \<in> set ''0123456789'')"

definition id_pattern_search :: "string \<Rightarrow> string option" where
  "id_pattern_search s =
     (let r = dropWhile (\<lambda>c. \<not> is_digit c) s
      in if r = [] then None else Some (takeWhile is_digit r))"

subsection \<open>Ordered dictionaries\<close>

text \<open>
  An \<open>OrderedDict\<close> is the list of its items in insertion order, with distinct keys.
  Assigning to a key that is present replaces the value in place; assigning to a new key
  appends the item. \<open>del d[k]\<close> raises \<open>KeyError\<close> when the key is absent.
\<close>

type_synonym odict = "(string \<times> string) list"

fun od_set :: "string \<Rightarrow> string \<Rightarrow> odict \<Rightarrow> odict" where
  "od_set k v [] = [(k, v)]"
| "od_set k v (p # ps) = (if fst p = k then (k, v) # ps else p # od_set k v ps)"

definition od_keys :: "odict \<Rightarrow> string list" where
  "od_keys d = map fst d"

definition od_contains :: "string \<Rightarrow> odict \<Rightarrow> bool" where
  "od_contains k d = (k \<in> set (od_keys d))"

definition od_get :: "odict \<Rightarrow> string \<Rightarrow> error + string" where
  "od_get d k = (case map_of d k of None \<Rightarrow> Inl KeyError | Some v \<Rightarrow> Inr v)"

definition od_del :: "string \<Rightarrow> odict \<Rightarrow> error + odict" where
  "od_del k d =
     (if od_contains k d then Inr (filter (\<lambda>p. fst p \<noteq> k) d) else Inl KeyError)"

subsection \<open>The directory listings\<close>

definition IJ_ROI_DIR :: string where
  "IJ_ROI_DIR = join2 ''data'' ''bounding_boxes_299''"

definition TRAINING_DIR :: string where
  "TRAINING_DIR = join2 ''data'' ''train_299''"

definition CLASSES :: "string list" where
  "CLASSES = [''Type_1'', ''Type_2'', ''Type_3'']"

text \<open>
  The file system is seen through \<open>os.listdir\<close> only: a function from a directory path to
  the names in it, or to the exception raised for a path that cannot be listed.
\<close>

type_synonym listdir = "string \<Rightarrow> error + string list"

fun roi_loop :: "string \<Rightarrow> string list \<Rightarrow> odict \<Rightarrow> odict" where
  "roi_loop dir [] d = d"
| "roi_loop dir (f # fs) d = roi_loop dir fs (od_set (splitext_root f) (join2 dir f) d)"

definition get_dict_roi :: "listdir \<Rightarrow> string option \<Rightarrow> error + odict" where
  "get_dict_roi ls directory =
     (case ls (py_or directory IJ_ROI_DIR) of
        Inl e \<Rightarrow> Inl e
      | Inr fs \<Rightarrow> Inr (roi_loop (py_or directory IJ_ROI_DIR) fs []))"

text \<open>
  The inner loop of \<open>_get_dict_all_images\<close>: the image id is the first run of digits of
  the file name without its extension; \<open>search\<close> returning \<open>None\<close> makes \<open>.group(0)\<close>
  raise \<open>AttributeError\<close>.
\<close>

fun images_loop :: "string \<Rightarrow> string \<Rightarrow> string list \<Rightarrow> odict \<Rightarrow> error + odict" where
  "images_loop dir cls [] d = Inr d"
| "images_loop dir cls (f # fs) d =
     (case id_pattern_search (splitext_root f) of
        None \<Rightarrow> Inl AttributeError
      | Some img_id \<Rightarrow> images_loop dir cls fs (od_set img_id (join3 dir cls f) d))"

fun classes_loop :: "listdir \<Rightarrow> string \<Rightarrow> string list \<Rightarrow> odict \<Rightarrow> error + odict" where
  "classes_loop ls dir [] d = Inr d"
| "classes_loop ls dir (cls # cs) d =
     (case ls (join2 dir cls) of
        Inl e \<Rightarrow> Inl e
      | Inr fs \<Rightarrow>
          (case images_loop dir cls fs d of
             Inl e \<Rightarrow> Inl e
           | Inr d' \<Rightarrow> classes_loop ls dir cs d'))"

definition get_dict_all_images :: "listdir \<Rightarrow> string option \<Rightarrow> error + odict" where
  "get_dict_all_images ls directory =
     classes_loop ls (py_or directory TRAINING_DIR) CLASSES []"

text \<open>
  \<open>_get_dict_tagged_images\<close>: the loop runs over the keys of \<open>all_images\<close> in order and
  copies the items whose key is also a key of the ROI dictionary.
\<close>

fun tagged_loop :: "odict \<Rightarrow> odict \<Rightarrow> string list \<Rightarrow> odict \<Rightarrow> error + odict" where
  "tagged_loop all_images tagged_roi [] d = Inr d"
| "tagged_loop all_images tagged_roi (img_id # ks) d =
     (if od_contains img_id tagged_roi
      then (case od_get all_images img_id of
              Inl e \<Rightarrow> Inl e
            | Inr v \<Rightarrow> tagged_loop all_images tagged_roi ks (od_set img_id v d))
      else tagged_loop all_images tagged_roi ks d)"

definition get_dict_tagged_images ::
    "listdir \<Rightarrow> string option \<Rightarrow> string option \<Rightarrow> error + odict" where
  "get_dict_tagged_images ls directory roi_directory =
     (case get_dict_all_images ls directory of
        Inl e \<Rightarrow> Inl e
      | Inr all_images \<Rightarrow>
          (case get_dict_roi ls roi_directory of
             Inl e \<Rightarrow> Inl e
           | Inr tagged_roi \<Rightarrow> tagged_loop all_images tagged_roi (od_keys all_images) []))"

text \<open>
  \<open>_get_dict_untagged_images\<close>: the tagged ids, computed with the default ROI directory,
  are deleted one by one from a fresh copy of the all-images dictionary.
\<close>

fun del_loop :: "string list \<Rightarrow> odict \<Rightarrow> error + odict" where
  "del_loop [] d = Inr d"
| "del_loop (img_id # ks) d =
     (case od_del img_id d of Inl e \<Rightarrow> Inl e | Inr d' \<Rightarrow> del_loop ks d')"

definition get_dict_untagged_images :: "listdir \<Rightarrow> string option \<Rightarrow> error + odict" where
  "get_dict_untagged_images ls directory =
     (case get_dict_all_images ls directory of
        Inl e \<Rightarrow> Inl e
      | Inr d \<Rightarrow>
          (case get_dict_tagged_images ls directory None of
             Inl e \<Rightarrow> Inl e
           | Inr tagged \<Rightarrow> del_loop (od_keys tagged) d))"

text \<open>A small training directory and ROI directory, used to run the definitions.\<close>

definition example_listdir :: listdir where
  "example_listdir p =
     (if p = ''data/train_299/Type_1'' then Inr [''12.jpg'', ''7_add.jpg'']
      else if p = ''data/train_299/Type_2'' then Inr [''30.jpg'']
      else if p = ''data/train_299/Type_3'' then Inr []
      else if p = ''data/bounding_boxes_299'' then Inr [''30.roi'', ''99.roi'', ''12.roi'']
      else Inl OSError)"

section \<open>bounding\_box.py: predict\<close>

text \<open>
  Keras and the image loader are outside the repository; they enter as the fields of a
  record. \<open>cnn_body\<close> stands for what the body of \<open>_cnn\<close> does once its parameter
  \<open>model_file\<close> is bound (build Xception, load the weights of \<open>model_file\<close>, attach the
  regression head). \<open>'m\<close> is a model handle, \<open>'x\<close> an image array and \<open>'p\<close> one predicted
  bounding box.
\<close>

record ('m, 'x, 'p) keras =
  cnn_body :: "string \<Rightarrow> error + 'm"
  load_weights :: "'m \<Rightarrow> string \<Rightarrow> error + 'm"
  load_img :: "string \<Rightarrow> error + 'x"
  model_predict :: "'m \<Rightarrow> 'x list \<Rightarrow> error + 'p list"

text \<open>
  A call of a Python function that has exactly one parameter, required and positional:
  any other number of arguments raises \<open>TypeError\<close> before the body runs.
\<close>

definition py_call1 :: "('a \<Rightarrow> error + 'b) \<Rightarrow> 'a list \<Rightarrow> error + 'b" where
  "py_call1 f args = (case args of [a] \<Rightarrow> f a | _ \<Rightarrow> Inl TypeError)"

definition cnn :: "('m, 'x, 'p) keras \<Rightarrow> string list \<Rightarrow> error + 'm" where
  "cnn K args = py_call1 (cnn_body K) args"

text \<open>\<open>MODEL_FILE\<close>; \<open>MODELS_DIR\<close> comes from \<open>data_provider\<close> and is the parameter \<open>models_dir\<close>.\<close>

definition MODEL_FILE :: "string \<Rightarrow> string" where
  "MODEL_FILE models_dir = join2 models_dir ''localizer.h5''"

fun load_images_loop ::
    "(string \<Rightarrow> error + 'x) \<Rightarrow> odict \<Rightarrow> string list \<Rightarrow> error + 'x list" where
  "load_images_loop ld img_dict [] = Inr []"
| "load_images_loop ld img_dict (img_id # ks) =
     (case od_get img_dict img_id of
        Inl e \<Rightarrow> Inl e
      | Inr path \<Rightarrow>
          (case ld path of
             Inl e \<Rightarrow> Inl e
           | Inr x \<Rightarrow>
               (case load_images_loop ld img_dict ks of
                  Inl e \<Rightarrow> Inl e
                | Inr xs \<Rightarrow> Inr (x # xs))))"

definition get_all_images ::
    "('m, 'x, 'p) keras \<Rightarrow> listdir \<Rightarrow> error + (string list \<times> 'x list)" where
  "get_all_images K ls =
     (case get_dict_all_images ls None of
        Inl e \<Rightarrow> Inl e
      | Inr img_dict \<Rightarrow>
          (case load_images_loop (load_img K) img_dict (od_keys img_dict) of
             Inl e \<Rightarrow> Inl e
           | Inr X \<Rightarrow> Inr (od_keys img_dict, X)))"

text \<open>
  What \<open>predict\<close> shows to the outside: the three \<open>print\<close> calls and the \<open>np.save\<close>.
  The function returns the exception that ended it, if any, and the effects in order.
\<close>

datatype 'p predict_event =
    PrintLabels "string list"
  | PrintPredictions "'p list"
  | PrintShape nat
  | SavePredictions string "'p list"

definition predict ::
    "('m, 'x, 'p) keras \<Rightarrow> string \<Rightarrow> listdir \<Rightarrow> error option \<times> 'p predict_event list" where
  "predict K models_dir ls =
     (case cnn K [] of
        Inl e \<Rightarrow> (Some e, [])
      | Inr model \<Rightarrow>
          (case load_weights K model (MODEL_FILE models_dir) of
             Inl e \<Rightarrow> (Some e, [])
           | Inr model' \<Rightarrow>
               (case get_all_images K ls of
                  Inl e \<Rightarrow> (Some e, [])
                | Inr (labels, X) \<Rightarrow>
                    (case model_predict K model' X of
                       Inl e \<Rightarrow> (Some e, [PrintLabels (take 20 labels)])
                     | Inr predictions \<Rightarrow>
                         (None,
                          [PrintLabels (take 20 labels),
                           PrintPredictions (take 5 predictions),
                           PrintShape (length predictions),
                           SavePredictions ''predictions.npy'' predictions])))))"

section \<open>stacking.py\<close>

text \<open>
  A prediction matrix is the list of its rows. Its entries are float64 in the program and
  real numbers here: rounding is not modelled.
\<close>

type_synonym matrix = "real list list"

datatype preprocess = xception_preprocess | inception_preprocess

definition HEIGHT :: nat where
  "HEIGHT = 299"

definition BATCH_SIZE :: nat where
  "BATCH_SIZE = 32"

text \<open>The dictionary \<open>MODELS\<close>, as the list of its items in insertion order.\<close>

definition MODELS :: "(string \<times> preprocess) list" where
  "MODELS =
     [(''xception_fine_tuned_stable_frozen_86_dropout_0_2_val_loss_0_7288.h5'',
         xception_preprocess),
      (''xception_fine_tuned_stable_frozen_86_dropout_0_5_val_loss_0_7520.h5'',
         xception_preprocess),
      (''xception_fine_tuned_stable_frozen_86_dropout_0_6_val_loss_0_7386.h5'',
         xception_preprocess),
      (''xception_fine_tuned_stable_frozen_96_dropout_0_6_val_loss_0_7383.h5'',
         xception_preprocess),
      (''xception_fine_tuned_stable_frozen_66_dropout_0_5_val_loss_0_7719.h5'',
         xception_preprocess),
      (''xception_fine_tuned_stable_frozen_106_dropout_0_5_val_loss_0_7550.h5'',
         xception_preprocess),
      (''inception_fine_tuned_stable_frozen_280_dropout_0_5_val_loss_0_7203.h5'',
         inception_preprocess),
      (''inception_fine_tuned_stable_frozen_260_dropout_0_5_val_loss_0_7440.h5'',
         inception_preprocess),
      (''inception_fine_tuned_stable_frozen_250_dropout_0_5_val_loss_0_7473.h5'',
         inception_preprocess)]"

text \<open>
  The entries of \<open>data_info\<close> that \<open>train\<close> reads, and the two values of \<open>dir_id\<close>
  (\<open>'val'\<close> and \<open>'te'\<close>) that select among them.
\<close>

record data_info =
  num_val :: nat
  num_te :: nat
  dir_val :: string
  dir_te :: string

datatype dir_id = Val | Te

definition info_dir :: "data_info \<Rightarrow> dir_id \<Rightarrow> string" where
  "info_dir di d = (case d of Val \<Rightarrow> dir_val di | Te \<Rightarrow> dir_te di)"

definition info_num :: "data_info \<Rightarrow> dir_id \<Rightarrow> nat" where
  "info_num di d = (case d of Val \<Rightarrow> num_val di | Te \<Rightarrow> num_te di)"

datatype clf = DummyClassifier | LogisticRegression real

text \<open>
  What lies outside the sources at hand (Keras, scikit-learn, \<open>data_provider\<close>, \<open>utils\<close>,
  \<open>xception_fine_tune\<close>) is a record of functions. \<open>predict_generator\<close> stands for
  loading the model at a path, opening the unshuffled image generator on a directory with
  a preprocessing function, and predicting for a number of steps.
  \<open>create_submission_file\<close> returns the exception that the call raises, or \<open>None\<close> when
  the call returns, having written the file. \<open>'y\<close> is the type of the labels, \<open>'s\<close> of
  the cross-validation scores, \<open>'f\<close> of a fitted classifier and \<open>'c\<close> of its
  coefficients.
\<close>

record ('y, 's, 'f, 'c) stack_env =
  load_organized_data_info :: "nat \<Rightarrow> string \<Rightarrow> error + data_info"
  MODELS_DIR :: string
  SUBMISSIONS_DIR :: string
  predict_generator :: "string \<Rightarrow> preprocess \<Rightarrow> string \<Rightarrow> nat \<Rightarrow> error + matrix"
  create_embeddings :: "string \<Rightarrow> error + ('y \<times> string list)"
  cross_val_scores :: "(string \<times> clf) list \<Rightarrow> matrix \<Rightarrow> 'y \<Rightarrow> nat \<Rightarrow> error + 's"
  lr_fit :: "clf \<Rightarrow> matrix \<Rightarrow> 'y \<Rightarrow> error + 'f"
  predict_proba :: "'f \<Rightarrow> matrix \<Rightarrow> error + matrix"
  coef :: "'f \<Rightarrow> 'c"
  create_submission_file :: "string list \<Rightarrow> matrix \<Rightarrow> string \<Rightarrow> error option"

definition make_predictions ::
    "('y, 's, 'f, 'c) stack_env \<Rightarrow> string \<Rightarrow> preprocess \<Rightarrow> data_info \<Rightarrow> dir_id
       \<Rightarrow> error + matrix" where
  "make_predictions E model_path preprocess_func di d =
     predict_generator E model_path preprocess_func (info_dir di d)
       (nat \<lceil>real (info_num di d) / real BATCH_SIZE\<rceil>)"

text \<open>
  \<open>np.hstack\<close> of two two-dimensional arrays: the rows are joined pairwise; arrays with
  different numbers of rows raise \<open>ValueError\<close>.
\<close>

definition hstack :: "matrix \<Rightarrow> matrix \<Rightarrow> error + matrix" where
  "hstack A B = (if length A = length B then Inr (map2 (@) A B) else Inl ValueError)"

text \<open>
  The loop over \<open>MODELS.items()\<close>. \<open>preds_te\<close> is \<open>None\<close> while the variable is unbound,
  which is the case throughout a cross-validation run.
\<close>

fun models_loop ::
    "('y, 's, 'f, 'c) stack_env \<Rightarrow> data_info \<Rightarrow> bool \<Rightarrow> (string \<times> preprocess) list
       \<Rightarrow> matrix \<Rightarrow> matrix option \<Rightarrow> error + (matrix \<times> matrix option)" where
  "models_loop E di cross_validate [] preds_val preds_te = Inr (preds_val, preds_te)"
| "models_loop E di cross_validate ((model_name, preprocess_func) # rest) preds_val preds_te =
     (case make_predictions E (join2 (MODELS_DIR E) model_name) preprocess_func di Val of
        Inl e \<Rightarrow> Inl e
      | Inr model_preds_val \<Rightarrow>
          (if \<not> cross_validate
           then (case make_predictions E (join2 (MODELS_DIR E) model_name) preprocess_func di Te of
                   Inl e \<Rightarrow> Inl e
                 | Inr model_preds_te \<Rightarrow>
                     (case hstack preds_val model_preds_val of
                        Inl e \<Rightarrow> Inl e
                      | Inr preds_val' \<Rightarrow>
                          (case preds_te of
                             None \<Rightarrow> Inl UnboundLocalError
                           | Some te \<Rightarrow>
                               (case hstack te model_preds_te of
                                  Inl e \<Rightarrow> Inl e
                                | Inr preds_te' \<Rightarrow>
                                    models_loop E di cross_validate rest
                                      preds_val' (Some preds_te')))))
           else (case hstack preds_val model_preds_val of
                   Inl e \<Rightarrow> Inl e
                 | Inr preds_val' \<Rightarrow>
                     models_loop E di cross_validate rest preds_val' preds_te)))"

text \<open>
  The first part of \<open>train\<close>: the two arrays start as \<open>np.empty((num, 0))\<close>, with the
  test array only when \<open>cross_validate\<close> is false, and go through the loop.
\<close>

definition stack_features ::
    "('y, 's, 'f, 'c) stack_env \<Rightarrow> data_info \<Rightarrow> bool \<Rightarrow> error + (matrix \<times> matrix option)" where
  "stack_features E di cross_validate =
     models_loop E di cross_validate MODELS
       (replicate (num_val di) [])
       (if \<not> cross_validate then Some (replicate (num_te di) []) else None)"

text \<open>
  The effects of \<open>train\<close>: what it prints, and the call of \<open>create_submission_file\<close>
  with the arguments of the call. The function returns the exception that ended it, if any,
  and the effects in order. A call of \<open>create_submission_file\<close> that raises ends the run
  before the coefficients are printed.
\<close>

datatype ('s, 'c) train_event =
    PrintScores 's
  | CreateSubmissionFile "string list" matrix string
  | PrintCoef 'c

definition clfs :: "(string \<times> clf) list" where
  "clfs = [(''stratified'', DummyClassifier),
           (''lr'', LogisticRegression (10 ^ 10)),
           (''lr_l2'', LogisticRegression 2)]"

definition train ::
    "('y, 's, 'f, 'c) stack_env \<Rightarrow> string \<Rightarrow> bool \<Rightarrow> nat
       \<Rightarrow> error option \<times> ('s, 'c) train_event list" where
  "train E name cross_validate k =
     (case load_organized_data_info E HEIGHT name of
        Inl e \<Rightarrow> (Some e, [])
      | Inr di \<Rightarrow>
          (case stack_features E di cross_validate of
             Inl e \<Rightarrow> (Some e, [])
           | Inr (preds_val, preds_te) \<Rightarrow>
               (case create_embeddings E name of
                  Inl e \<Rightarrow> (Some e, [])
                | Inr (y_val, te_names) \<Rightarrow>
                    (if cross_validate
                     then (case cross_val_scores E clfs preds_val y_val k of
                             Inl e \<Rightarrow> (Some e, [])
                           | Inr scores \<Rightarrow> (None, [PrintScores scores]))
                     else (case lr_fit E (LogisticRegression (10 ^ 10)) preds_val y_val of
                             Inl e \<Rightarrow> (Some e, [])
                           | Inr lr \<Rightarrow>
                               (case preds_te of
                                  None \<Rightarrow> (Some UnboundLocalError, [])
                                | Some te \<Rightarrow>
                                    (case predict_proba E lr te of
                                       Inl e \<Rightarrow> (Some e, [])
                                     | Inr y_pred \<Rightarrow>
                                         (case create_submission_file E te_names y_pred
                                                 (join2 (SUBMISSIONS_DIR E) ''stacked.csv'') of
                                            Some e \<Rightarrow>
                                              (Some e,
                                               [CreateSubmissionFile te_names y_pred
                                                  (join2 (SUBMISSIONS_DIR E) ''stacked.csv'')])
                                          | None \<Rightarrow>
                                              (None,
                                               [CreateSubmissionFile te_names y_pred
                                                  (join2 (SUBMISSIONS_DIR E) ''stacked.csv''),
                                                PrintCoef (coef E lr)])))))))))"

definition is_submission_call :: "('s, 'c) train_event \<Rightarrow> bool" where
  "is_submission_call ev = (case ev of CreateSubmissionFile _ _ _ \<Rightarrow> True | _ \<Rightarrow> False)"

text \<open>
  Modelled from the spec: \<open>create_submission_file\<close> is in \<open>utils\<close>, outside the sources at
  hand. The spec's \<open>write(keys, matrix, path)\<close> requires as many keys as rows and fails with
  \<open>ShapeMismatchError\<close> otherwise, leaving no file; with as many keys as rows it writes the
  file at the path.
\<close>

definition spec_create_submission_file :: "string list \<Rightarrow> matrix \<Rightarrow> string \<Rightarrow> error option" where
  "spec_create_submission_file names m path =
     (if length names = length m then None else Some ShapeMismatchError)"







text \<open>
  A run of the definitions: two validation items and one test item; every model predicts
  the same three probabilities for every item.
\<close>

definition example_info :: data_info where
  "example_info = \<lparr>num_val = 2, num_te = 1, dir_val = ''val'', dir_te = ''te''\<rparr>"

definition example_env :: "(nat list, string list, matrix, matrix) stack_env" where
  "example_env =
     \<lparr>load_organized_data_info = (\<lambda>dim name. Inr example_info),
      MODELS_DIR = ''models'',
      SUBMISSIONS_DIR = ''submissions'',
      predict_generator =
        (\<lambda>path pf dir steps.
           if dir = ''val'' then Inr [[1/2, 1/4, 1/4], [0, 1, 0]] else Inr [[1/4, 1/4, 1/2]]),
      create_embeddings = (\<lambda>name. Inr ([0, 1], [''7''])),
      cross_val_scores = (\<lambda>cs X y k. Inr (map fst cs)),
      lr_fit = (\<lambda>c X y. Inr X),
      predict_proba = (\<lambda>f X. Inr (map (\<lambda>row. take 3 row) X)),
      coef = (\<lambda>f. f),
      create_submission_file = spec_create_submission_file\<rparr>"







definition example_val :: matrix where
  "example_val =
     [[1/2, 1/4, 1/4, 1/2, 1/4, 1/4, 1/2, 1/4, 1/4, 1/2, 1/4, 1/4, 1/2, 1/4, 1/4,
       1/2, 1/4, 1/4, 1/2, 1/4, 1/4, 1/2, 1/4, 1/4, 1/2, 1/4, 1/4],
      [0, 1, 0, 0, 1, 0, 0, 1, 0, 0, 1, 0, 0, 1, 0, 0, 1, 0, 0, 1, 0, 0, 1, 0, 0, 1, 0]]"


section \<open>average\_submissions.py\<close>

text \<open>The dictionary \<open>W_SUBMISSIONS\<close>, as the list of its items in insertion order.\<close>

definition W_SUBMISSIONS :: "(string \<times> real) list" where
  "W_SUBMISSIONS =
     [(''xception_fine_tuned_cleaned_0_70487.csv'', 3 / 10),
      (''xception_fine_tuned_cleaned_0_71442.csv'', 1 / 4),
      (''xception_fine_tuned_cleaned_0_72094.csv'', 1 / 5),
      (''xception_fine_tuned_cleaned_0_72348.csv'', 3 / 20),
      (''xception_fine_tuned_cleaned_0_72837.csv'', 1 / 10)]"

subsection \<open>Reading one submission file\<close>

text \<open>
  \<open>str.rstrip()\<close> removes the trailing whitespace of a line; among the bytes these are
  the space, the control characters 9 to 13 and 28 to 31.
\<close>

definition is_space :: "char \<Rightarrow> bool" where
  "is_space c = (of_char c \<in> set [9, 10, 11, 12, 13, 28, 29, 30, 31, 32 :: nat])"

definition rstrip :: "string \<Rightarrow> string" where
  "rstrip s = rev (dropWhile is_space (rev s))"

text \<open>\<open>str.split(',')\<close>: the fields between the commas; there is always at least one.\<close>

fun split_on :: "char \<Rightarrow> string \<Rightarrow> string list" where
  "split_on sep [] = [[]]"
| "split_on sep (x # xs) =
     (if x = sep then [] # split_on sep xs
      else (case split_on sep xs of
              [] \<Rightarrow> [[x]]
            | fld # flds \<Rightarrow> (x # fld) # flds))"

text \<open>
  \<open>float(x)\<close> is the parameter \<open>pyfloat\<close>: \<open>None\<close> when the field is no number
  (\<open>ValueError\<close>), otherwise its value, a real number here. The spellings of infinity
  and of NaN that \<open>float\<close> also accepts are outside the model.
\<close>

fun floats :: "(string \<Rightarrow> real option) \<Rightarrow> string list \<Rightarrow> real list option" where
  "floats pyfloat [] = Some []"
| "floats pyfloat (x # xs) =
     (case pyfloat x of
        None \<Rightarrow> None
      | Some v \<Rightarrow> (case floats pyfloat xs of None \<Rightarrow> None | Some vs \<Rightarrow> Some (v # vs)))"

text \<open>
  The inner loop over the lines of one file: it returns the names and the rows of
  probabilities, in the order of the lines.
\<close>

fun parse_lines ::
    "(string \<Rightarrow> real option) \<Rightarrow> string list \<Rightarrow> error + (string list \<times> matrix)" where
  "parse_lines pyfloat [] = Inr ([], [])"
| "parse_lines pyfloat (line # lines) =
     (case split_on (CHR '','') (rstrip line) of
        [] \<Rightarrow> Inl IndexError
      | name # flds \<Rightarrow>
          (case floats pyfloat flds of
             None \<Rightarrow> Inl ValueError
           | Some row \<Rightarrow>
               (case parse_lines pyfloat lines of
                  Inl e \<Rightarrow> Inl e
                | Inr (names, single_probs) \<Rightarrow> Inr (name # names, row # single_probs))))"

text \<open>
  \<open>np.array(single_probs)\<close> on the rows of one file: rows of different lengths raise
  \<open>ValueError\<close> (NumPy from 1.24 on refuses ragged input).
\<close>

definition rectangular :: "matrix \<Rightarrow> bool" where
  "rectangular rows = list_all (\<lambda>row. length row = length (hd rows)) rows"

definition np_array2 :: "matrix \<Rightarrow> error + matrix" where
  "np_array2 rows = (if rectangular rows then Inr rows else Inl ValueError)"

text \<open>
  The loop over \<open>W_SUBMISSIONS.items()\<close>. \<open>read_lines\<close> is in \<open>utils\<close>, outside the
  sources at hand, and is a parameter: the lines of a file, or the exception raised.
  \<open>names\<close> is reset for every file, so the names that survive the loop are those of the
  last file read; the argument \<open>names\<close> is the value the variable has before the loop
  step.
\<close>

fun load_sources ::
    "(string \<Rightarrow> error + string list) \<Rightarrow> (string \<Rightarrow> real option) \<Rightarrow> string
       \<Rightarrow> (string \<times> real) list \<Rightarrow> string list
       \<Rightarrow> error + (string list \<times> matrix list \<times> real list)" where
  "load_sources read_lines pyfloat dir [] names = Inr (names, [], [])"
| "load_sources read_lines pyfloat dir ((file_name, weight) # rest) names =
     (case read_lines (join2 dir file_name) of
        Inl e \<Rightarrow> Inl e
      | Inr lines \<Rightarrow>
          (case parse_lines pyfloat (drop 1 lines) of
             Inl e \<Rightarrow> Inl e
           | Inr (names', single_probs) \<Rightarrow>
               (case np_array2 single_probs of
                  Inl e \<Rightarrow> Inl e
                | Inr m \<Rightarrow>
                    (case load_sources read_lines pyfloat dir rest names' of
                       Inl e \<Rightarrow> Inl e
                     | Inr (names'', probs, weights) \<Rightarrow>
                         Inr (names'', m # probs, weight # weights)))))"

subsection \<open>The weighted average\<close>

text \<open>
  The shape of the array that \<open>np.array\<close> makes of the rows of one file: \<open>(R, C)\<close> for
  \<open>R > 0\<close> rows of \<open>C\<close> numbers, and \<open>(0,)\<close> for no rows. \<open>np.array(probs)\<close> needs all
  files to have one shape and raises \<open>ValueError\<close> otherwise.
\<close>

definition shape :: "matrix \<Rightarrow> nat list" where
  "shape m = (if m = [] then [0] else [length m, length (hd m)])"

definition same_shape :: "matrix list \<Rightarrow> bool" where
  "same_shape probs = list_all (\<lambda>m. shape m = shape (hd probs)) probs"

text \<open>
  A float64 quotient. Only the division can leave the finite numbers here: a nonzero
  number over zero is an infinity, zero over zero is NaN, with a warning and no
  exception.
\<close>

datatype float64 = Fin real | PosInf | NegInf | NaN

definition np_div :: "real \<Rightarrow> real \<Rightarrow> float64" where
  "np_div x t =
     (if t = 0 then (if x = 0 then NaN else if 0 < x then PosInf else NegInf)
      else Fin (x / t))"

text \<open>\<open>probs * weights[:, np.newaxis, np.newaxis]\<close>: file \<open>i\<close> is scaled by weight \<open>i\<close>.\<close>

definition scale :: "matrix \<Rightarrow> real \<Rightarrow> matrix" where
  "scale m w = map (map (\<lambda>x. x * w)) m"

text \<open>\<open>np.sum(..., axis=0)\<close>: the matrices are added entry by entry, in order.\<close>

definition madd :: "matrix \<Rightarrow> matrix \<Rightarrow> matrix" where
  "madd A B = map2 (map2 (+)) A B"

fun sum_axis0 :: "matrix list \<Rightarrow> matrix" where
  "sum_axis0 [] = []"
| "sum_axis0 (m # ms) = foldl madd m ms"

text \<open>
  Lines 37 to 41. For at least one file with at least one row, \<open>probs\<close> has the shape
  \<open>(n, R, C)\<close> and the result the shape \<open>(R, C)\<close>. Two corners follow from NumPy's
  broadcasting: \<open>n\<close> files without rows give \<open>probs\<close> the shape \<open>(n, 0)\<close>, the product the
  shape \<open>(n, n, 0)\<close> and the result the shape \<open>(n, 0)\<close>, that is \<open>n\<close> rows of no entries;
  no file at all gives the shapes \<open>(0,)\<close>, \<open>(0, 1, 0)\<close> and \<open>(1, 0)\<close>.
\<close>

definition combine :: "matrix list \<Rightarrow> real list \<Rightarrow> error + float64 list list" where
  "combine probs weights =
     (if probs = [] then Inr [[]]
      else if \<not> same_shape probs then Inl ValueError
      else if hd probs = [] then Inr (replicate (length probs) [])
      else Inr (map (map (\<lambda>s. np_div s (sum_list weights)))
                  (sum_axis0 (map2 scale probs weights))))"

text \<open>
  \<open>average\<close> for a table of weights: the result is the exception raised, or the three
  arguments of the call of \<open>create_submission_file\<close> that ends the function.
\<close>

definition submissions_file :: "string \<Rightarrow> string" where
  "submissions_file dir = join2 dir ''xception_fine_tuned_averaged.csv''"

definition average_with ::
    "(string \<Rightarrow> error + string list) \<Rightarrow> (string \<Rightarrow> real option) \<Rightarrow> string
       \<Rightarrow> (string \<times> real) list \<Rightarrow> error + (string list \<times> float64 list list \<times> string)" where
  "average_with read_lines pyfloat dir table =
     (case load_sources read_lines pyfloat dir table [] of
        Inl e \<Rightarrow> Inl e
      | Inr (names, probs, weights) \<Rightarrow>
          (case combine probs weights of
             Inl e \<Rightarrow> Inl e
           | Inr averaged \<Rightarrow> Inr (names, averaged, submissions_file dir)))"

text \<open>\<open>average()\<close> itself, with the table of the module; \<open>dir\<close> is \<open>SUBMISSIONS_DIR\<close>.\<close>

definition average ::
    "(string \<Rightarrow> error + string list) \<Rightarrow> (string \<Rightarrow> real option) \<Rightarrow> string
       \<Rightarrow> error + (string list \<times> float64 list list \<times> string)" where
  "average read_lines pyfloat dir = average_with read_lines pyfloat dir W_SUBMISSIONS"

text \<open>
  The weighted mean of the specification's combiner: the sum over the sources of weight times probability,
  over the sum of the weights.
\<close>

definition weighted_mean :: "matrix list \<Rightarrow> real list \<Rightarrow> nat \<Rightarrow> nat \<Rightarrow> real" where
  "weighted_mean probs weights r c =
     (\<Sum>i<length probs. weights ! i * probs ! i ! r ! c) / (\<Sum>i<length weights. weights ! i)"

subsection \<open>Example inputs\<close>

definition example_float :: "string \<Rightarrow> real option" where
  "example_float s =
     (if s = ''0'' then Some 0
      else if s = ''1'' then Some 1
      else if s = ''0.5'' then Some (1 / 2)
      else if s = ''0.25'' then Some (1 / 4)
      else if s = ''0.75'' then Some (3 / 4)
      else None)"

text \<open>Five files for the same two items, in the same order.\<close>

definition aligned_files :: "string \<Rightarrow> error + string list" where
  "aligned_files path =
     (if path = ''subs/xception_fine_tuned_cleaned_0_70487.csv''
      then Inr [''image_name,Type_1,Type_2,Type_3'', ''a.jpg,1,0,0\<newline>'', ''b.jpg,0,0.5,0.5\<newline>'']
      else Inr [''image_name,Type_1,Type_2,Type_3'', ''a.jpg,0.5,0.5,0\<newline>'', ''b.jpg,0,0.25,0.75\<newline>''])"

text \<open>Five files of which the first lists the two items in the other order.\<close>

definition misaligned_files :: "string \<Rightarrow> error + string list" where
  "misaligned_files path =
     (if path = ''subs/xception_fine_tuned_cleaned_0_70487.csv''
      then Inr [''image_name,Type_1,Type_2,Type_3'', ''b.jpg,1,0,0\<newline>'', ''a.jpg,0,0.5,0.5\<newline>'']
      else Inr [''image_name,Type_1,Type_2,Type_3'', ''a.jpg,0.5,0.5,0\<newline>'', ''b.jpg,0,0.25,0.75\<newline>''])"

text \<open>One file, and a file that has a header and no item.\<close>

definition one_file :: "string \<Rightarrow> error + string list" where
  "one_file path =
     (if path = ''subs/a.csv''
      then Inr [''image_name,Type_1,Type_2,Type_3'', ''a.jpg,0.25,0.75,0\<newline>'', ''b.jpg,0,0.5,0.5\<newline>'']
      else if path = ''subs/b.csv''
      then Inr [''image_name,Type_1,Type_2,Type_3'', ''a.jpg,0.5,0.5,0\<newline>'', ''b.jpg,0,0.25,0.75\<newline>'']
      else if path = ''subs/empty.csv''
      then Inr [''image_name,Type_1,Type_2,Type_3'']
      else Inl OSError)"

text \<open>A matrix of \<open>R\<close> rows of \<open>C\<close> entries each.\<close>

definition has_shape :: "nat \<Rightarrow> nat \<Rightarrow> matrix \<Rightarrow> bool" where
  "has_shape R C m = (length m = R \<and> (\<forall>row\<in>set m. length row = C))"

text \<open>The matrices that the example files hold.\<close>

definition probs_a :: matrix where "probs_a = [[1/4, 3/4, 0], [0, 1/2, 1/2]]"
definition probs_b :: matrix where "probs_b = [[1/2, 1/2, 0], [0, 1/4, 3/4]]"
definition probs_c :: matrix where "probs_c = [[1, 0, 0], [0, 1/2, 1/2]]"

definition aligned_probs :: "matrix list" where
  "aligned_probs = [probs_c, probs_b, probs_b, probs_b, probs_b]"

text \<open>Five files that have a header and no item.\<close>

definition header_only_files :: "string \<Rightarrow> error + string list" where
  "header_only_files path = Inr [''image_name,Type_1,Type_2,Type_3'']"

text \<open>The sum of a row of the result, when all its entries are finite.\<close>

fun row_sum :: "float64 list \<Rightarrow> real option" where
  "row_sum [] = Some 0"
| "row_sum (x # xs) =
     (case x of
        Fin v \<Rightarrow> (case row_sum xs of None \<Rightarrow> None | Some s \<Rightarrow> Some (v + s))
      | _ \<Rightarrow> None)"

subsection \<open>One product and one quotient in binary64\<close>

text \<open>
  The program computes in binary64, the definitions above with real numbers. For one
  source the result of lines 40 and 41 is one product and one quotient: the sum over the
  one source is the product itself and the sum of the one weight is the weight. The
  rounding of these two operations is modelled here, for nonzero results in the normal
  range: a real number is scaled by powers of two until its significand lies between
  \<open>2^52\<close> and \<open>2^53\<close>, the significand is rounded to the nearest integer, a tie to the
  even one, and the result is scaled back.
\<close>

definition round_half_even :: "real \<Rightarrow> int" where
  "round_half_even x =
     (let f = \<lfloor>x\<rfloor>; d = x - of_int f
      in if d < 1 / 2 then f
         else if 1 / 2 < d then f + 1
         else if even f then f else f + 1)"

fun normalize_significand :: "nat \<Rightarrow> real \<Rightarrow> int \<Rightarrow> real \<times> int" where
  "normalize_significand 0 m e = (m, e)"
| "normalize_significand (Suc n) m e =
     (if m < 2 ^ 52 then normalize_significand n (2 * m) (e - 1)
      else if 2 ^ 53 \<le> m then normalize_significand n (m / 2) (e + 1)
      else (m, e))"

definition pow2 :: "int \<Rightarrow> real" where
  "pow2 e = (if 0 \<le> e then 2 ^ nat e else 1 / 2 ^ nat (- e))"

definition round_binary64 :: "real \<Rightarrow> real" where
  "round_binary64 x =
     (if x = 0 then 0
      else (case normalize_significand 2200 \<bar>x\<bar> 0 of
              (m, e) \<Rightarrow> sgn x * of_int (round_half_even m) * pow2 e))"

definition f64_mul :: "real \<Rightarrow> real \<Rightarrow> real" where
  "f64_mul x y = round_binary64 (x * y)"

definition f64_div :: "real \<Rightarrow> real \<Rightarrow> real" where
  "f64_div x y = round_binary64 (x / y)"

definition single_source_entry_f64 :: "real \<Rightarrow> real \<Rightarrow> real" where
  "single_source_entry_f64 p w = f64_div (f64_mul p w) w"

section \<open>Properties of the image dictionaries\<close>

subsection \<open>Facts about ordered dictionaries\<close>

lemma od_set_keys:
  "fst ` set (od_set k v d) = insert k (fst ` set d)"
  by (induction d) auto

lemma od_set_item:
  "(a, b) \<in> set (od_set k v d) \<Longrightarrow> a = k \<or> a \<in> fst ` set d"
proof -
  assume "(a, b) \<in> set (od_set k v d)"
  then have "a \<in> set (map fst (od_set k v d))" by force
  then show ?thesis by (simp add: od_set_keys)
qed

lemma od_set_distinct:
  "distinct (map fst d) \<Longrightarrow> distinct (map fst (od_set k v d))"
  by (induction d) (auto dest: od_set_item)

lemma od_set_fresh:
  "k \<notin> set (map fst d) \<Longrightarrow> od_set k v d = d @ [(k, v)]"
  by (induction d) auto

lemma images_loop_distinct:
  "images_loop dir c fs d = Inr d' \<Longrightarrow> distinct (map fst d) \<Longrightarrow> distinct (map fst d')"
  by (induction fs arbitrary: d) (auto split: option.splits intro: od_set_distinct)

lemma classes_loop_distinct:
  "classes_loop ls dir cs d = Inr d' \<Longrightarrow> distinct (map fst d) \<Longrightarrow> distinct (map fst d')"
  by (induction cs arbitrary: d) (auto split: sum.splits dest: images_loop_distinct)

lemma get_dict_all_images_distinct:
  "get_dict_all_images ls directory = Inr a \<Longrightarrow> distinct (map fst a)"
  unfolding get_dict_all_images_def by (drule classes_loop_distinct) auto

lemma od_get_member:
  "distinct (map fst a) \<Longrightarrow> (k, v) \<in> set a \<Longrightarrow> od_get a k = Inr v"
  by (simp add: od_get_def)

lemma tagged_loop_filter:
  assumes "distinct (map fst (pre @ suf))"
  shows "tagged_loop (pre @ suf) roi (map fst suf) (filter (\<lambda>p. od_contains (fst p) roi) pre)
           = Inr (filter (\<lambda>p. od_contains (fst p) roi) (pre @ suf))"
  using assms
proof (induction suf arbitrary: pre)
  case Nil
  then show ?case by simp
next
  case (Cons p suf)
  obtain k v where p: "p = (k, v)" by (cases p)
  have d: "distinct (map fst ((pre @ [p]) @ suf))" using Cons.prems by simp
  have ih: "tagged_loop ((pre @ [p]) @ suf) roi (map fst suf)
              (filter (\<lambda>p. od_contains (fst p) roi) (pre @ [p]))
            = Inr (filter (\<lambda>p. od_contains (fst p) roi) ((pre @ [p]) @ suf))"
    by (rule Cons.IH [OF d])
  show ?case
  proof (cases "od_contains k roi")
    case True
    have g: "od_get (pre @ p # suf) k = Inr v"
      using Cons.prems p by (intro od_get_member) auto
    have "k \<notin> set (map fst pre)" using Cons.prems p by auto
    then have "k \<notin> set (map fst (filter (\<lambda>p. od_contains (fst p) roi) pre))" by auto
    then have s: "od_set k v (filter (\<lambda>p. od_contains (fst p) roi) pre)
                  = filter (\<lambda>p. od_contains (fst p) roi) pre @ [(k, v)]"
      by (rule od_set_fresh)
    show ?thesis using ih True g s p by simp
  next
    case False
    then show ?thesis using ih p by simp
  qed
qed

lemma del_loop_filter:
  "distinct ks \<Longrightarrow> set ks \<subseteq> set (map fst d) \<Longrightarrow>
     del_loop ks d = Inr (filter (\<lambda>p. fst p \<notin> set ks) d)"
proof (induction ks arbitrary: d)
  case Nil
  then show ?case by simp
next
  case (Cons k ks)
  have sub: "set ks \<subseteq> set (map fst (filter (\<lambda>p. fst p \<noteq> k) d))"
  proof
    fix x assume x: "x \<in> set ks"
    then have "x \<noteq> k" using Cons.prems by auto
    moreover obtain v where "(x, v) \<in> set d" using x Cons.prems by auto
    ultimately show "x \<in> set (map fst (filter (\<lambda>p. fst p \<noteq> k) d))" by force
  qed
  have "del_loop ks (filter (\<lambda>p. fst p \<noteq> k) d)
          = Inr (filter (\<lambda>p. fst p \<notin> set ks) (filter (\<lambda>p. fst p \<noteq> k) d))"
    using Cons.prems sub by (intro Cons.IH) auto
  moreover have "filter (\<lambda>p. fst p \<notin> set ks) (filter (\<lambda>p. fst p \<noteq> k) d)
                   = filter (\<lambda>p. fst p \<notin> set (k # ks)) d"
    by (induction d) auto
  ultimately show ?case using Cons.prems by (simp add: od_del_def od_contains_def od_keys_def)
qed


subsection \<open>Tagged and untagged images partition the images\<close>

text \<open>
  C10. When the images of a training directory and the ROI files of the default ROI
  directory can be listed, both \<open>_get_dict_tagged_images\<close> and
  \<open>_get_dict_untagged_images\<close> return: the tagged dictionary holds the items of the
  all-images dictionary whose id has an ROI file, in the all-images order, the untagged
  dictionary holds the remaining items, and the two key sets are disjoint and together make
  up the key set of the all-images dictionary.
\<close>

theorem tagged_untagged_partition:
  assumes all: "get_dict_all_images ls directory = Inr all_images"
    and roi: "get_dict_roi ls None = Inr roi"
  shows "\<exists>tagged untagged.
           get_dict_tagged_images ls directory None = Inr tagged
         \<and> get_dict_untagged_images ls directory = Inr untagged
         \<and> tagged = filter (\<lambda>p. od_contains (fst p) roi) all_images
         \<and> untagged = filter (\<lambda>p. \<not> od_contains (fst p) roi) all_images
         \<and> set (od_keys tagged) \<inter> set (od_keys untagged) = {}
         \<and> set (od_keys tagged) \<union> set (od_keys untagged) = set (od_keys all_images)"
proof -
  let ?t = "filter (\<lambda>p. od_contains (fst p) roi) all_images"
  let ?u = "filter (\<lambda>p. \<not> od_contains (fst p) roi) all_images"
  have dist: "distinct (map fst all_images)"
    using all by (rule get_dict_all_images_distinct)
  have "tagged_loop ([] @ all_images) roi (map fst all_images)
          (filter (\<lambda>p. od_contains (fst p) roi) []) = Inr (filter (\<lambda>p. od_contains (fst p) roi) ([] @ all_images))"
    using dist by (intro tagged_loop_filter) simp
  then have tl: "tagged_loop all_images roi (od_keys all_images) [] = Inr ?t"
    by (simp add: od_keys_def)
  have tagged: "get_dict_tagged_images ls directory None = Inr ?t"
    using all roi tl by (simp add: get_dict_tagged_images_def)
  have dk: "distinct (od_keys ?t)"
    using dist by (simp add: od_keys_def distinct_map_filter)
  have sk: "set (od_keys ?t) \<subseteq> set (map fst all_images)"
    by (auto simp: od_keys_def)
  have "del_loop (od_keys ?t) all_images
          = Inr (filter (\<lambda>p. fst p \<notin> set (od_keys ?t)) all_images)"
    using dk sk by (rule del_loop_filter)
  moreover have "filter (\<lambda>p. fst p \<notin> set (od_keys ?t)) all_images = ?u"
    unfolding od_keys_def by (rule filter_cong) (simp, force)
  ultimately have untagged: "get_dict_untagged_images ls directory = Inr ?u"
    using all tagged by (simp add: get_dict_untagged_images_def)
  have disj: "set (od_keys ?t) \<inter> set (od_keys ?u) = {}"
    by (auto simp: od_keys_def)
  have cover: "set (od_keys ?t) \<union> set (od_keys ?u) = set (od_keys all_images)"
    by (auto simp: od_keys_def)
  show ?thesis using tagged untagged disj cover by blast
qed

theorem tagged_untagged_partition_witness:
  "get_dict_all_images example_listdir None
     = Inr [(''12'', ''data/train_299/Type_1/12.jpg''),
            (''7'', ''data/train_299/Type_1/7_add.jpg''),
            (''30'', ''data/train_299/Type_2/30.jpg'')]
   \<and> get_dict_roi example_listdir None
     = Inr [(''30'', ''data/bounding_boxes_299/30.roi''),
            (''99'', ''data/bounding_boxes_299/99.roi''),
            (''12'', ''data/bounding_boxes_299/12.roi'')]
   \<and> get_dict_tagged_images example_listdir None None
     = Inr [(''12'', ''data/train_299/Type_1/12.jpg''),
            (''30'', ''data/train_299/Type_2/30.jpg'')]
   \<and> get_dict_untagged_images example_listdir None
     = Inr [(''7'', ''data/train_299/Type_1/7_add.jpg'')]"
proof -
  let ?a = "[(''12'', ''data/train_299/Type_1/12.jpg''),
             (''7'', ''data/train_299/Type_1/7_add.jpg''),
             (''30'', ''data/train_299/Type_2/30.jpg'')]"
  let ?r = "[(''30'', ''data/bounding_boxes_299/30.roi''),
             (''99'', ''data/bounding_boxes_299/99.roi''),
             (''12'', ''data/bounding_boxes_299/12.roi'')]"
  have a: "get_dict_all_images example_listdir None = Inr ?a"
    by code_simp
  have r: "get_dict_roi example_listdir None = Inr ?r"
    by code_simp
  from tagged_untagged_partition [OF a r]
  have "get_dict_tagged_images example_listdir None None
          = Inr (filter (\<lambda>p. od_contains (fst p) ?r) ?a)
        \<and> get_dict_untagged_images example_listdir None
          = Inr (filter (\<lambda>p. \<not> od_contains (fst p) ?r) ?a)"
    by blast
  then show ?thesis using a r by (simp add: od_contains_def od_keys_def)
qed

section \<open>Properties of predict\<close>

lemma cnn_one_argument: "cnn K [model_file] = cnn_body K model_file"
  by (simp add: cnn_def py_call1_def)

text \<open>
  C9. Every call of \<open>predict\<close> fails before it produces anything: \<open>_cnn\<close> is called with
  no argument although it requires \<open>model_file\<close>, so the call raises \<open>TypeError\<close>; nothing
  is printed and nothing is saved, whatever Keras, the model directory and the file system
  are.
\<close>

theorem predict_always_fails:
  "predict K models_dir ls = (Some TypeError, [])"
  by (simp add: predict_def cnn_def py_call1_def)

section \<open>Properties of stacking\<close>

subsection \<open>The feature matrices\<close>













subsection \<open>The effects of train\<close>

text \<open>
  C8. A run of \<open>train\<close> in cross-validation mode never calls \<open>create_submission_file\<close>,
  and when it completes it has printed the scores that \<open>cross_val_scores\<close> returned for the
  three candidate combiners (\<open>stratified\<close>, a dummy classifier; \<open>lr\<close>, a logistic regression
  with \<open>C = 1e10\<close>; \<open>lr_l2\<close>, one with \<open>C = 2\<close>) on the validation features, and nothing
  else. A run in final-fit mode calls \<open>create_submission_file\<close> at most once, and when it
  completes it has called it exactly once, for \<open>stacked.csv\<close> in the submissions directory
  with the probabilities predicted for the test features, the call has returned, and the
  coefficients of the fitted logistic regression have been printed after it.
\<close>

theorem train_effects:
  assumes "train E name cross_validate k = (err, evs)"
  shows "(cross_validate \<longrightarrow>
            filter is_submission_call evs = []
          \<and> (err = None \<longrightarrow>
               (\<exists>di preds_val preds_te y_val te_names scores.
                   load_organized_data_info E HEIGHT name = Inr di
                 \<and> stack_features E di True = Inr (preds_val, preds_te)
                 \<and> create_embeddings E name = Inr (y_val, te_names)
                 \<and> cross_val_scores E
                       [(''stratified'', DummyClassifier),
                        (''lr'', LogisticRegression (10 ^ 10)),
                        (''lr_l2'', LogisticRegression 2)] preds_val y_val k = Inr scores
                 \<and> evs = [PrintScores scores])))
       \<and> (\<not> cross_validate \<longrightarrow>
            length (filter is_submission_call evs) \<le> 1
          \<and> (err = None \<longrightarrow>
               (\<exists>di preds_val te y_val te_names lr y_pred.
                   load_organized_data_info E HEIGHT name = Inr di
                 \<and> stack_features E di False = Inr (preds_val, Some te)
                 \<and> create_embeddings E name = Inr (y_val, te_names)
                 \<and> lr_fit E (LogisticRegression (10 ^ 10)) preds_val y_val = Inr lr
                 \<and> predict_proba E lr te = Inr y_pred
                 \<and> create_submission_file E te_names y_pred
                       (join2 (SUBMISSIONS_DIR E) ''stacked.csv'') = None
                 \<and> evs = [CreateSubmissionFile te_names y_pred
                            (join2 (SUBMISSIONS_DIR E) ''stacked.csv''),
                          PrintCoef (coef E lr)]
                 \<and> length (filter is_submission_call evs) = 1)))"
  using assms unfolding train_def is_submission_call_def clfs_def
  by (auto split: sum.splits prod.splits option.splits if_splits)

theorem train_effects_witness:
  "train example_env ''stable'' True 10 = (None, [PrintScores [''stratified'', ''lr'', ''lr_l2'']])
   \<and> filter is_submission_call
        [PrintScores [''stratified'', ''lr'', ''lr_l2''] :: (string list, matrix) train_event] = []
   \<and> train example_env ''stable'' False 10
       = (None, [CreateSubmissionFile [''7''] [[1/4, 1/4, 1/2]] ''submissions/stacked.csv'',
                 PrintCoef example_val])
   \<and> length (filter is_submission_call
        [CreateSubmissionFile [''7''] [[1/4, 1/4, 1/2]] ''submissions/stacked.csv'',
         PrintCoef example_val :: (string list, matrix) train_event]) = 1"
proof -
  have cv: "train example_env ''stable'' True 10
              = (None, [PrintScores [''stratified'', ''lr'', ''lr_l2'']])"
    by code_simp
  have fin: "train example_env ''stable'' False 10
       = (None, [CreateSubmissionFile [''7''] [[1/4, 1/4, 1/2]] ''submissions/stacked.csv'',
                 PrintCoef example_val])"
    by code_simp
  from train_effects [OF cv] train_effects [OF fin] show ?thesis
    using cv fin by (simp add: is_submission_call_def)
qed

text \<open>
  A final-fit run in which \<open>create_submission_file\<close> raises: with two names for the one
  row of probabilities the writer of the spec fails with \<open>ShapeMismatchError\<close>; the call
  has been made, the run ends with the exception and the coefficients are not printed.
\<close>

lemma train_submission_call_raises:
  "train (example_env\<lparr>create_embeddings := (\<lambda>name. Inr ([0, 1], [''7'', ''8'']))\<rparr>)
       ''stable'' False 10
     = (Some ShapeMismatchError,
        [CreateSubmissionFile [''7'', ''8''] [[1/4, 1/4, 1/2]] ''submissions/stacked.csv''])"
  by code_simp

subsection \<open>The probabilities that train writes\<close>

lemma sum_list_divide:
  "sum_list (map (\<lambda>v. f v / c) z) = sum_list (map f z) / (c :: real)"
  by (induction z) (simp_all add: add_divide_distrib)










section \<open>Properties of the weighted average\<close>

subsection \<open>The loop over the files\<close>

lemma load_sources_weights:
  "load_sources rl pf dir table n0 = Inr (names, probs, weights) \<Longrightarrow>
     weights = map snd table \<and> length probs = length table \<and> (\<forall>m\<in>set probs. rectangular m)"
proof (induction table arbitrary: n0 names probs weights)
  case Nil
  then show ?case by simp
next
  case (Cons a table)
  obtain f w where a: "a = (f, w)" by (cases a)
  from Cons.prems a obtain lines ns m ps ws where
    st: "rl (join2 dir f) = Inr lines" "parse_lines pf (drop 1 lines) = Inr (ns, m)"
      "rectangular m" "load_sources rl pf dir table ns = Inr (names, ps, ws)"
      "probs = m # ps" "weights = w # ws"
    by (auto simp: np_array2_def split: sum.splits if_splits)
  from Cons.IH [OF st(4)] show ?case using st a by simp
qed

lemma load_sources_files:
  "load_sources rl pf dir table n0 = Inr (names, probs, weights) \<Longrightarrow> i < length table \<Longrightarrow>
     \<exists>lines ns. rl (join2 dir (fst (table ! i))) = Inr lines
        \<and> parse_lines pf (drop 1 lines) = Inr (ns, probs ! i)"
proof (induction table arbitrary: n0 names probs weights i)
  case Nil
  then show ?case by simp
next
  case (Cons a table)
  obtain f w where a: "a = (f, w)" by (cases a)
  from Cons.prems a obtain lines ns m ps ws where
    st: "rl (join2 dir f) = Inr lines" "parse_lines pf (drop 1 lines) = Inr (ns, m)"
      "load_sources rl pf dir table ns = Inr (names, ps, ws)"
      "probs = m # ps" "weights = w # ws"
    by (auto simp: np_array2_def split: sum.splits if_splits)
  show ?case
  proof (cases i)
    case 0
    then show ?thesis using st a by simp
  next
    case (Suc j)
    then have "j < length table" using Cons.prems by simp
    from Cons.IH [OF st(3) this] show ?thesis using Suc st by simp
  qed
qed

lemma load_sources_names:
  "load_sources rl pf dir table n0 = Inr (names, probs, weights) \<Longrightarrow> table \<noteq> [] \<Longrightarrow>
     \<exists>lines rows. rl (join2 dir (fst (last table))) = Inr lines
        \<and> parse_lines pf (drop 1 lines) = Inr (names, rows)"
proof (induction table arbitrary: n0 names probs weights)
  case Nil
  then show ?case by simp
next
  case (Cons a table)
  obtain f w where a: "a = (f, w)" by (cases a)
  from Cons.prems a obtain lines ns m ps ws where
    st: "rl (join2 dir f) = Inr lines" "parse_lines pf (drop 1 lines) = Inr (ns, m)"
      "load_sources rl pf dir table ns = Inr (names, ps, ws)"
    by (auto simp: np_array2_def split: sum.splits if_splits)
  show ?case
  proof (cases "table = []")
    case True
    then show ?thesis using st a by auto
  next
    case False
    from Cons.IH [OF st(3) False] show ?thesis using False by simp
  qed
qed

lemma madd_shape:
  "has_shape R C A \<Longrightarrow> has_shape R C B \<Longrightarrow> has_shape R C (madd A B)"
  by (auto simp: has_shape_def madd_def set_zip)

lemma madd_cell:
  "has_shape R C A \<Longrightarrow> has_shape R C B \<Longrightarrow> r < R \<Longrightarrow> c < C \<Longrightarrow>
     madd A B ! r ! c = A ! r ! c + B ! r ! c"
  by (simp add: has_shape_def madd_def)

lemma foldl_madd:
  "has_shape R C A \<Longrightarrow> \<forall>m\<in>set ms. has_shape R C m \<Longrightarrow>
     has_shape R C (foldl madd A ms)
   \<and> (\<forall>r<R. \<forall>c<C. foldl madd A ms ! r ! c = A ! r ! c + sum_list (map (\<lambda>m. m ! r ! c) ms))"
proof (induction ms arbitrary: A)
  case Nil
  then show ?case by simp
next
  case (Cons m ms)
  have s: "has_shape R C (madd A m)" using Cons.prems by (simp add: madd_shape)
  have "has_shape R C (foldl madd (madd A m) ms)
      \<and> (\<forall>r<R. \<forall>c<C. foldl madd (madd A m) ms ! r ! c
            = madd A m ! r ! c + sum_list (map (\<lambda>m. m ! r ! c) ms))"
    using s Cons.prems by (intro Cons.IH) auto
  then show ?case using Cons.prems by (simp add: madd_cell add.assoc)
qed

lemma sum_axis0_cell:
  assumes "ms \<noteq> []" "\<forall>m\<in>set ms. has_shape R C m"
  shows "has_shape R C (sum_axis0 ms)
       \<and> (\<forall>r<R. \<forall>c<C. sum_axis0 ms ! r ! c = (\<Sum>i<length ms. ms ! i ! r ! c))"
proof -
  obtain m rest where ms: "ms = m # rest" using assms(1) by (cases ms) auto
  have f: "has_shape R C (foldl madd m rest)
     \<and> (\<forall>r<R. \<forall>c<C. foldl madd m rest ! r ! c = m ! r ! c + sum_list (map (\<lambda>m. m ! r ! c) rest))"
    using assms(2) ms by (intro foldl_madd) auto
  have "\<And>r c. m ! r ! c + sum_list (map (\<lambda>m. m ! r ! c) rest) = (\<Sum>i<length ms. ms ! i ! r ! c)"
  proof -
    fix r c
    have "(\<Sum>i<length ms. ms ! i ! r ! c) = sum_list (map (\<lambda>m. m ! r ! c) ms)"
      by (simp add: sum_list_sum_nth atLeast0LessThan)
    then show "m ! r ! c + sum_list (map (\<lambda>m. m ! r ! c) rest) = (\<Sum>i<length ms. ms ! i ! r ! c)"
      using ms by simp
  qed
  then show ?thesis using f ms by simp
qed

lemma scale_shape: "has_shape R C m \<Longrightarrow> has_shape R C (scale m w)"
  by (auto simp: has_shape_def scale_def)

lemma scale_cell: "has_shape R C m \<Longrightarrow> r < R \<Longrightarrow> c < C \<Longrightarrow> scale m w ! r ! c = m ! r ! c * w"
  by (simp add: has_shape_def scale_def)

lemma scaled_sum_cell:
  assumes "probs \<noteq> []" "length weights = length probs" "\<forall>m\<in>set probs. has_shape R C m"
  shows "has_shape R C (sum_axis0 (map2 scale probs weights))
       \<and> (\<forall>r<R. \<forall>c<C. sum_axis0 (map2 scale probs weights) ! r ! c
             = (\<Sum>i<length probs. weights ! i * probs ! i ! r ! c))"
proof -
  let ?ms = "map2 scale probs weights"
  have ne: "?ms \<noteq> []" using assms(1,2) by (cases probs; cases weights) auto
  have sh: "\<forall>m\<in>set ?ms. has_shape R C m"
    using assms(3) by (auto simp: set_zip scale_shape)
  have len: "length ?ms = length probs" using assms(2) by simp
  have cell: "\<And>i r c. i < length probs \<Longrightarrow> r < R \<Longrightarrow> c < C \<Longrightarrow>
                ?ms ! i ! r ! c = weights ! i * probs ! i ! r ! c"
  proof -
    fix i r c assume h: "i < length probs" "r < R" "c < C"
    then have "has_shape R C (probs ! i)" using assms(3) by simp
    then have "scale (probs ! i) (weights ! i) ! r ! c = probs ! i ! r ! c * weights ! i"
      using h(2,3) by (simp add: scale_cell)
    then show "?ms ! i ! r ! c = weights ! i * probs ! i ! r ! c"
      using h assms(2) by (simp add: mult.commute)
  qed
  from sum_axis0_cell [OF ne sh]
  have a: "has_shape R C (sum_axis0 ?ms)"
    and b: "\<forall>r<R. \<forall>c<C. sum_axis0 ?ms ! r ! c = (\<Sum>i<length ?ms. ?ms ! i ! r ! c)"
    by auto
  have "\<forall>r<R. \<forall>c<C. sum_axis0 ?ms ! r ! c = (\<Sum>i<length probs. weights ! i * probs ! i ! r ! c)"
  proof (intro allI impI)
    fix r c assume rc: "r < R" "c < C"
    have "sum_axis0 ?ms ! r ! c = (\<Sum>i<length probs. ?ms ! i ! r ! c)"
      using b rc len by simp
    also have "\<dots> = (\<Sum>i<length probs. weights ! i * probs ! i ! r ! c)"
      by (rule sum.cong) (use cell rc in auto)
    finally show "sum_axis0 ?ms ! r ! c = (\<Sum>i<length probs. weights ! i * probs ! i ! r ! c)" .
  qed
  then show ?thesis using a by simp
qed

lemma same_shape_has_shape:
  assumes "probs \<noteq> []" "same_shape probs" "hd probs \<noteq> []" "\<forall>m\<in>set probs. rectangular m"
  shows "\<forall>m\<in>set probs. has_shape (length (hd probs)) (length (hd (hd probs))) m"
proof
  fix m assume m: "m \<in> set probs"
  have "shape m = shape (hd probs)"
    using assms(2) m by (simp add: same_shape_def list_all_iff)
  then have s: "m \<noteq> [] \<and> length m = length (hd probs) \<and> length (hd m) = length (hd (hd probs))"
    using assms(3) by (auto simp: shape_def split: if_splits)
  have "\<forall>row\<in>set m. length row = length (hd m)"
    using assms(4) m by (simp add: rectangular_def list_all_iff)
  then show "has_shape (length (hd probs)) (length (hd (hd probs))) m"
    using s by (simp add: has_shape_def)
qed


lemma sum_nth_weights: "(\<Sum>i<length ws. ws ! i) = sum_list (ws :: real list)"
  by (simp add: sum_list_sum_nth atLeast0LessThan)

lemma combine_regular:
  assumes "probs \<noteq> []" "same_shape probs" "hd probs \<noteq> []" "\<forall>m\<in>set probs. rectangular m"
    and "length weights = length probs"
  shows "\<exists>S. combine probs weights = Inr (map (map (\<lambda>s. np_div s (sum_list weights))) S)
           \<and> has_shape (length (hd probs)) (length (hd (hd probs))) S
           \<and> (\<forall>r<length (hd probs). \<forall>c<length (hd (hd probs)).
                 S ! r ! c = (\<Sum>i<length probs. weights ! i * probs ! i ! r ! c))"
proof -
  have sh: "\<forall>m\<in>set probs. has_shape (length (hd probs)) (length (hd (hd probs))) m"
    using assms(1-4) by (rule same_shape_has_shape)
  have c: "combine probs weights
             = Inr (map (map (\<lambda>s. np_div s (sum_list weights))) (sum_axis0 (map2 scale probs weights)))"
    using assms(1-3) by (simp add: combine_def)
  from scaled_sum_cell [OF assms(1) assms(5) sh] c show ?thesis by blast
qed

lemma combine_succeeds:
  assumes "same_shape probs"
  shows "\<exists>averaged. combine probs weights = Inr averaged
           \<and> (\<forall>row\<in>set averaged. \<forall>x\<in>set row. (\<exists>v. x = Fin v) \<longleftrightarrow> sum_list weights \<noteq> 0)"
  using assms by (auto simp: combine_def np_div_def)

lemma weighted_row_sum:
  assumes "length weights = length probs" "\<forall>m\<in>set probs. has_shape R C m"
    and "\<forall>m\<in>set probs. \<forall>row\<in>set m. sum_list row = (1::real)" "r < R"
  shows "(\<Sum>c<C. \<Sum>i<length probs. weights ! i * probs ! i ! r ! c) = sum_list weights"
proof -
  have row: "\<And>i. i < length probs \<Longrightarrow> (\<Sum>c<C. probs ! i ! r ! c) = 1"
  proof -
    fix i assume i: "i < length probs"
    then have m: "probs ! i \<in> set probs" by simp
    then have sh: "has_shape R C (probs ! i)" using assms(2) by blast
    then have mem: "probs ! i ! r \<in> set (probs ! i)" and len: "length (probs ! i ! r) = C"
      using assms(4) by (auto simp: has_shape_def)
    have "sum_list (probs ! i ! r) = 1" using assms(3) m mem by blast
    then show "(\<Sum>c<C. probs ! i ! r ! c) = 1"
      using len by (simp add: sum_list_sum_nth atLeast0LessThan)
  qed
  have "(\<Sum>c<C. \<Sum>i<length probs. weights ! i * probs ! i ! r ! c)
          = (\<Sum>i<length probs. \<Sum>c<C. weights ! i * probs ! i ! r ! c)"
    by (rule sum.swap)
  also have "\<dots> = (\<Sum>i<length probs. weights ! i * (\<Sum>c<C. probs ! i ! r ! c))"
    by (simp add: sum_distrib_left)
  also have "\<dots> = (\<Sum>i<length probs. weights ! i)"
    by (rule sum.cong) (use row in auto)
  also have "\<dots> = sum_list weights"
    using assms(1) sum_nth_weights [of weights] by simp
  finally show ?thesis .
qed

subsection \<open>The weighted mean\<close>

text \<open>
  C2. When every source parses, all sources have one shape and the weights do not sum to
  zero (as for valid weights, which are non-negative with a positive sum), \<open>average\<close>
  passes on a matrix of the common shape whose entry at row \<open>r\<close> and column \<open>c\<close> is the
  sum over the sources of weight times probability at \<open>r\<close> and \<open>c\<close>, divided by the sum of
  the weights. The weights are those of the table, in its order.
\<close>

theorem average_weighted_mean:
  assumes load: "load_sources read_lines pyfloat dir table [] = Inr (names, probs, weights)"
    and same: "same_shape probs"
    and total: "sum_list weights \<noteq> 0"
  shows "weights = map snd table
       \<and> (\<exists>averaged.
             average_with read_lines pyfloat dir table = Inr (names, averaged, submissions_file dir)
           \<and> (hd probs \<noteq> [] \<longrightarrow>
                 length averaged = length (hd probs)
               \<and> (\<forall>row\<in>set averaged. length row = length (hd (hd probs))))
           \<and> (\<forall>r<length (hd probs). \<forall>c<length (hd (hd probs)).
                 averaged ! r ! c = Fin (weighted_mean probs weights r c)))"
proof -
  from load_sources_weights [OF load]
  have w: "weights = map snd table" and len: "length probs = length table"
    and rect: "\<forall>m\<in>set probs. rectangular m"
    by auto
  have ne: "probs \<noteq> []" using total w len by auto
  have lw: "length weights = length probs" using w len by simp
  show ?thesis
  proof (cases "hd probs = []")
    case True
    then have "combine probs weights = Inr (replicate (length probs) [])"
      using ne same by (simp add: combine_def)
    then show ?thesis using load w True by (simp add: average_with_def)
  next
    case False
    from combine_regular [OF ne same False rect lw] obtain S where
      S: "combine probs weights = Inr (map (map (\<lambda>s. np_div s (sum_list weights))) S)"
        "has_shape (length (hd probs)) (length (hd (hd probs))) S"
        "\<forall>r<length (hd probs). \<forall>c<length (hd (hd probs)).
            S ! r ! c = (\<Sum>i<length probs. weights ! i * probs ! i ! r ! c)"
      by blast
    let ?avg = "map (map (\<lambda>s. np_div s (sum_list weights))) S"
    have a: "average_with read_lines pyfloat dir table = Inr (names, ?avg, submissions_file dir)"
      using load S(1) by (simp add: average_with_def)
    have b: "length ?avg = length (hd probs) \<and> (\<forall>row\<in>set ?avg. length row = length (hd (hd probs)))"
      using S(2) by (auto simp: has_shape_def)
    have c: "\<forall>r<length (hd probs). \<forall>c<length (hd (hd probs)).
               ?avg ! r ! c = Fin (weighted_mean probs weights r c)"
    proof (intro allI impI)
      fix r c assume rc: "r < length (hd probs)" "c < length (hd (hd probs))"
      then have "?avg ! r ! c = np_div (S ! r ! c) (sum_list weights)"
        using S(2) by (simp add: has_shape_def)
      then show "?avg ! r ! c = Fin (weighted_mean probs weights r c)"
        using S(3) rc total by (simp add: np_div_def weighted_mean_def sum_nth_weights)
    qed
    show ?thesis using w a b c by blast
  qed
qed

theorem average_weighted_mean_witness:
  "load_sources one_file example_float ''subs'' [(''a.csv'', 3), (''b.csv'', 1)] []
     = Inr ([''a.jpg'', ''b.jpg''], [probs_a, probs_b], [3, 1])
   \<and> same_shape [probs_a, probs_b]
   \<and> sum_list [3, 1 :: real] \<noteq> 0
   \<and> (\<exists>averaged.
          average_with one_file example_float ''subs'' [(''a.csv'', 3), (''b.csv'', 1)]
            = Inr ([''a.jpg'', ''b.jpg''], averaged, submissions_file ''subs'')
        \<and> (\<forall>r<length (hd [probs_a, probs_b]). \<forall>c<length (hd (hd [probs_a, probs_b])).
              averaged ! r ! c = Fin (weighted_mean [probs_a, probs_b] [3, 1] r c)))
   \<and> weighted_mean [probs_a, probs_b] [3, 1] 0 0 = 5 / 16"
proof -
  have h1: "load_sources one_file example_float ''subs'' [(''a.csv'', 3), (''b.csv'', 1)] []
              = Inr ([''a.jpg'', ''b.jpg''], [probs_a, probs_b], [3, 1])"
    by code_simp
  have h2: "same_shape [probs_a, probs_b]"
    by code_simp
  have h3: "sum_list [3, 1 :: real] \<noteq> 0"
    by simp
  have v: "weighted_mean [probs_a, probs_b] [3, 1] 0 0 = 5 / 16"
    by (simp add: weighted_mean_def probs_a_def probs_b_def lessThan_Suc)
  from average_weighted_mean [OF h1 h2 h3] show ?thesis using h1 h2 h3 v by blast
qed

subsection \<open>What is not checked\<close>

text \<open>
  C1, as the code has it. \<open>average\<close> compares no keys. Whenever every source parses and
  the sources have one shape, it passes on the combined matrix, whatever the keys of the
  sources are, and the keys it passes on are those of the last file of the table.
\<close>

theorem average_no_key_check:
  assumes load: "load_sources read_lines pyfloat dir table [] = Inr (names, probs, weights)"
    and same: "same_shape probs"
  shows "(\<exists>averaged. combine probs weights = Inr averaged
            \<and> average_with read_lines pyfloat dir table = Inr (names, averaged, submissions_file dir))
       \<and> (table \<noteq> [] \<longrightarrow>
            (\<exists>lines rows. read_lines (join2 dir (fst (last table))) = Inr lines
                \<and> parse_lines pyfloat (drop 1 lines) = Inr (names, rows)))"
proof -
  from combine_succeeds [OF same] obtain averaged where "combine probs weights = Inr averaged"
    by blast
  then have "\<exists>averaged. combine probs weights = Inr averaged
            \<and> average_with read_lines pyfloat dir table = Inr (names, averaged, submissions_file dir)"
    using load by (simp add: average_with_def)
  moreover have "table \<noteq> [] \<longrightarrow>
            (\<exists>lines rows. read_lines (join2 dir (fst (last table))) = Inr lines
                \<and> parse_lines pyfloat (drop 1 lines) = Inr (names, rows))"
    using load_sources_names [OF load] by blast
  ultimately show ?thesis by blast
qed

theorem average_no_key_check_witness:
  "load_sources misaligned_files example_float ''subs'' W_SUBMISSIONS []
     = Inr ([''a.jpg'', ''b.jpg''], aligned_probs, map snd W_SUBMISSIONS)
   \<and> same_shape aligned_probs
   \<and> (\<exists>averaged. combine aligned_probs (map snd W_SUBMISSIONS) = Inr averaged
          \<and> average_with misaligned_files example_float ''subs'' W_SUBMISSIONS
              = Inr ([''a.jpg'', ''b.jpg''], averaged, submissions_file ''subs''))
   \<and> (\<exists>lines rows.
          misaligned_files (join2 ''subs'' (fst (last W_SUBMISSIONS))) = Inr lines
        \<and> parse_lines example_float (drop 1 lines) = Inr ([''a.jpg'', ''b.jpg''], rows))"
proof -
  have h1: "load_sources misaligned_files example_float ''subs'' W_SUBMISSIONS []
              = Inr ([''a.jpg'', ''b.jpg''], aligned_probs, map snd W_SUBMISSIONS)"
    by code_simp
  have h2: "same_shape aligned_probs" by code_simp
  have ne: "W_SUBMISSIONS \<noteq> []" by (simp add: W_SUBMISSIONS_def)
  from average_no_key_check [OF h1 h2] show ?thesis using h1 h2 ne by blast
qed

text \<open>
  The claim C1 fails for the five files of the module when the first lists the two items
  in the other order than the second: the matrix is combined row by row all the same.
\<close>

theorem average_no_key_check_counterexample:
  "misaligned_files ''subs/xception_fine_tuned_cleaned_0_70487.csv''
     = Inr [''image_name,Type_1,Type_2,Type_3'', ''b.jpg,1,0,0\<newline>'', ''a.jpg,0,0.5,0.5\<newline>'']
   \<and> misaligned_files ''subs/xception_fine_tuned_cleaned_0_71442.csv''
     = Inr [''image_name,Type_1,Type_2,Type_3'', ''a.jpg,0.5,0.5,0\<newline>'', ''b.jpg,0,0.25,0.75\<newline>'']
   \<and> average misaligned_files example_float ''subs''
     = Inr ([''a.jpg'', ''b.jpg''],
            [[Fin (13 / 20), Fin (7 / 20), Fin 0], [Fin 0, Fin (13 / 40), Fin (27 / 40)]],
            ''subs/xception_fine_tuned_averaged.csv'')"
  by code_simp

text \<open>
  C3, as the code has it. \<open>average\<close> validates no weights. For every table of weights,
  with negative weights and with weights that sum to zero as well, whenever every source
  parses and the sources have one shape it passes on a matrix and raises nothing.
\<close>

theorem average_no_weight_check:
  assumes load: "load_sources read_lines pyfloat dir table [] = Inr (names, probs, weights)"
    and same: "same_shape probs"
  shows "weights = map snd table
       \<and> (\<exists>averaged.
             average_with read_lines pyfloat dir table = Inr (names, averaged, submissions_file dir))"
proof -
  from combine_succeeds [OF same] obtain averaged where
    "combine probs weights = Inr averaged"
    by blast
  then show ?thesis using load load_sources_weights [OF load] by (auto simp: average_with_def)
qed

theorem average_no_weight_check_witness:
  "load_sources one_file example_float ''subs'' [(''a.csv'', 2), (''b.csv'', - 1)] []
     = Inr ([''a.jpg'', ''b.jpg''], [probs_a, probs_b], [2, - 1])
   \<and> same_shape [probs_a, probs_b]
   \<and> [2, - 1] = map snd [(''a.csv'', 2 :: real), (''b.csv'', - 1)]
   \<and> (\<exists>averaged.
          average_with one_file example_float ''subs'' [(''a.csv'', 2), (''b.csv'', - 1)]
            = Inr ([''a.jpg'', ''b.jpg''], averaged, submissions_file ''subs''))"
proof -
  have h1: "load_sources one_file example_float ''subs'' [(''a.csv'', 2), (''b.csv'', - 1)] []
              = Inr ([''a.jpg'', ''b.jpg''], [probs_a, probs_b], [2, - 1])"
    by code_simp
  have h2: "same_shape [probs_a, probs_b]" by code_simp
  from average_no_weight_check [OF h1 h2] show ?thesis using h1 h2 by blast
qed

text \<open>
  The claim C3 fails for a table with a negative weight, and for tables whose weights sum
  to zero: a matrix is passed on in every case.
\<close>

theorem average_no_weight_check_counterexample:
  "average_with one_file example_float ''subs'' [(''a.csv'', 2), (''b.csv'', - 1)]
     = Inr ([''a.jpg'', ''b.jpg''],
            [[Fin 0, Fin 1, Fin 0], [Fin 0, Fin (3 / 4), Fin (1 / 4)]],
            ''subs/xception_fine_tuned_averaged.csv'')
   \<and> average_with one_file example_float ''subs'' [(''a.csv'', 0), (''b.csv'', 0)]
     = Inr ([''a.jpg'', ''b.jpg''],
            [[NaN, NaN, NaN], [NaN, NaN, NaN]],
            ''subs/xception_fine_tuned_averaged.csv'')
   \<and> average_with one_file example_float ''subs'' [(''a.csv'', 1), (''b.csv'', - 1)]
     = Inr ([''a.jpg'', ''b.jpg''],
            [[NegInf, PosInf, NaN], [NaN, PosInf, NegInf]],
            ''subs/xception_fine_tuned_averaged.csv'')"
  by code_simp

subsection \<open>Rows that sum to one\<close>

text \<open>
  C4, as the code has it. For every table of non-negative weights with a positive sum, and
  for sources of one shape with at least one item whose rows are probability
  distributions (non-negative entries that sum to 1), every row of the matrix that
  \<open>average\<close> passes on is a probability distribution again: its entries are non-negative
  and sum to 1, hence to 1 within \<open>1e-6\<close>. The matrix is the weighted mean itself: nothing
  renormalises its rows. The sums are sums of real numbers.
\<close>

theorem average_rows_sum_to_one:
  assumes load: "load_sources read_lines pyfloat dir table [] = Inr (names, probs, weights)"
    and same: "same_shape probs"
    and items: "hd probs \<noteq> []"
    and nonneg: "\<forall>w\<in>set weights. 0 \<le> w"
    and total: "0 < sum_list weights"
    and dist: "\<forall>m\<in>set probs. \<forall>row\<in>set m. sum_list row = 1"
    and pos: "\<forall>m\<in>set probs. \<forall>row\<in>set m. \<forall>x\<in>set row. 0 \<le> x"
  shows "\<exists>rows.
           average_with read_lines pyfloat dir table
             = Inr (names, map (map Fin) rows, submissions_file dir)
         \<and> length rows = length (hd probs)
         \<and> (\<forall>r<length (hd probs). \<forall>c<length (hd (hd probs)).
               rows ! r ! c = weighted_mean probs weights r c)
         \<and> (\<forall>row\<in>set rows.
               sum_list row = 1 \<and> \<bar>sum_list row - 1\<bar> \<le> 1 / 10 ^ 6 \<and> (\<forall>x\<in>set row. 0 \<le> x))"
proof -
  let ?R = "length (hd probs)" and ?C = "length (hd (hd probs))"
  let ?W = "sum_list weights"
  from load_sources_weights [OF load]
  have w: "weights = map snd table" and len: "length probs = length table"
    and rect: "\<forall>m\<in>set probs. rectangular m"
    by auto
  have ne: "probs \<noteq> []" using total w len by auto
  have lw: "length weights = length probs" using w len by simp
  have sh: "\<forall>m\<in>set probs. has_shape ?R ?C m"
    using ne same items rect by (rule same_shape_has_shape)
  from combine_regular [OF ne same items rect lw] obtain S where
    S: "combine probs weights = Inr (map (map (\<lambda>s. np_div s ?W)) S)"
      "has_shape ?R ?C S"
      "\<forall>r<?R. \<forall>c<?C. S ! r ! c = (\<Sum>i<length probs. weights ! i * probs ! i ! r ! c)"
    by blast
  let ?rows = "map (map (\<lambda>s. s / ?W)) S"
  have fin: "map (map (\<lambda>s. np_div s ?W)) S = map (map Fin) ?rows"
    using total by (simp add: np_div_def comp_def)
  have a: "average_with read_lines pyfloat dir table
             = Inr (names, map (map Fin) ?rows, submissions_file dir)"
    using load S(1) fin by (simp add: average_with_def)
  have b: "length ?rows = ?R" using S(2) by (simp add: has_shape_def)
  have c: "\<forall>r<?R. \<forall>c<?C. ?rows ! r ! c = weighted_mean probs weights r c"
    using S(2,3) by (simp add: has_shape_def weighted_mean_def sum_nth_weights)
  have cell_nonneg: "\<And>r c. r < ?R \<Longrightarrow> c < ?C \<Longrightarrow> 0 \<le> S ! r ! c"
  proof -
    fix r c assume rc: "r < ?R" "c < ?C"
    have "\<And>i. i < length probs \<Longrightarrow> 0 \<le> weights ! i * probs ! i ! r ! c"
    proof -
      fix i assume i: "i < length probs"
      have wi: "0 \<le> weights ! i" using nonneg i lw by simp
      have m: "probs ! i \<in> set probs" using i by simp
      then have hs: "has_shape ?R ?C (probs ! i)" using sh by blast
      then have row: "probs ! i ! r \<in> set (probs ! i)" and lrow: "length (probs ! i ! r) = ?C"
        using rc(1) by (auto simp: has_shape_def)
      then have "probs ! i ! r ! c \<in> set (probs ! i ! r)" using rc(2) by simp
      then have "0 \<le> probs ! i ! r ! c" using pos m row by blast
      then show "0 \<le> weights ! i * probs ! i ! r ! c" using wi by simp
    qed
    then have "0 \<le> (\<Sum>i<length probs. weights ! i * probs ! i ! r ! c)"
      by (intro sum_nonneg) simp
    then show "0 \<le> S ! r ! c" using S(3) rc by simp
  qed
  have d: "\<forall>row\<in>set ?rows.
             sum_list row = 1 \<and> \<bar>sum_list row - 1\<bar> \<le> 1 / 10 ^ 6 \<and> (\<forall>x\<in>set row. 0 \<le> x)"
  proof
    fix row assume "row \<in> set ?rows"
    then obtain r where r: "r < ?R" "row = map (\<lambda>s. s / ?W) (S ! r)"
      using b by (auto simp: in_set_conv_nth)
    have lr: "length (S ! r) = ?C" using S(2) r(1) by (simp add: has_shape_def)
    have "sum_list (S ! r) = (\<Sum>c<?C. S ! r ! c)"
      using lr by (simp add: sum_list_sum_nth atLeast0LessThan)
    also have "\<dots> = (\<Sum>c<?C. \<Sum>i<length probs. weights ! i * probs ! i ! r ! c)"
      by (rule sum.cong) (use S(3) r in auto)
    also have "\<dots> = ?W"
      using lw sh dist r(1) by (rule weighted_row_sum)
    finally have "sum_list (S ! r) = ?W" .
    then have one: "sum_list row = 1"
      using r(2) total by (simp add: sum_list_divide)
    have "\<forall>x\<in>set row. 0 \<le> x"
    proof
      fix x assume "x \<in> set row"
      then obtain c where c: "c < ?C" "x = S ! r ! c / ?W"
        using r(2) lr by (auto simp: in_set_conv_nth)
      then show "0 \<le> x" using cell_nonneg [OF r(1) c(1)] total by simp
    qed
    then show "sum_list row = 1 \<and> \<bar>sum_list row - 1\<bar> \<le> 1 / 10 ^ 6 \<and> (\<forall>x\<in>set row. 0 \<le> x)"
      using one by simp
  qed
  show ?thesis using a b c d by blast
qed

theorem average_rows_sum_to_one_witness:
  "load_sources one_file example_float ''subs'' [(''a.csv'', 3), (''b.csv'', 1)] []
     = Inr ([''a.jpg'', ''b.jpg''], [probs_a, probs_b], [3, 1])
   \<and> same_shape [probs_a, probs_b]
   \<and> hd [probs_a, probs_b] \<noteq> []
   \<and> list_all (\<lambda>w. 0 \<le> w) [3, 1 :: real]
   \<and> 0 < sum_list [3, 1 :: real]
   \<and> list_all (list_all (\<lambda>row. sum_list row = 1)) [probs_a, probs_b]
   \<and> list_all (list_all (list_all (\<lambda>x. 0 \<le> x))) [probs_a, probs_b]
   \<and> average_with one_file example_float ''subs'' [(''a.csv'', 3), (''b.csv'', 1)]
       = Inr ([''a.jpg'', ''b.jpg''],
              map (map Fin) [[5 / 16, 11 / 16, 0], [0, 7 / 16, 9 / 16]],
              submissions_file ''subs'')
   \<and> list_all (\<lambda>row. sum_list row = 1 \<and> \<bar>sum_list row - 1\<bar> \<le> 1 / 10 ^ 6
                     \<and> list_all (\<lambda>x. 0 \<le> x) row)
         [[5 / 16, 11 / 16, 0], [0, 7 / 16, 9 / 16 :: real]]"
proof -
  have h1: "load_sources one_file example_float ''subs'' [(''a.csv'', 3), (''b.csv'', 1)] []
              = Inr ([''a.jpg'', ''b.jpg''], [probs_a, probs_b], [3, 1])"
    by code_simp
  have h2: "same_shape [probs_a, probs_b]" by code_simp
  have h3: "hd [probs_a, probs_b] \<noteq> []" by (simp add: probs_a_def)
  have h4: "\<forall>w\<in>set [3, 1 :: real]. 0 \<le> w" by simp
  have h5: "0 < sum_list [3, 1 :: real]" by simp
  have h6: "\<forall>m\<in>set [probs_a, probs_b]. \<forall>row\<in>set m. sum_list row = 1"
    by (simp add: probs_a_def probs_b_def)
  have h7: "\<forall>m\<in>set [probs_a, probs_b]. \<forall>row\<in>set m. \<forall>x\<in>set row. 0 \<le> x"
    by (simp add: probs_a_def probs_b_def)
  have v: "average_with one_file example_float ''subs'' [(''a.csv'', 3), (''b.csv'', 1)]
       = Inr ([''a.jpg'', ''b.jpg''],
              map (map Fin) [[5 / 16, 11 / 16, 0], [0, 7 / 16, 9 / 16]],
              submissions_file ''subs'')"
    by code_simp
  from average_rows_sum_to_one [OF h1 h2 h3 h4 h5 h6 h7] obtain rows where
    r: "average_with one_file example_float ''subs'' [(''a.csv'', 3), (''b.csv'', 1)]
          = Inr ([''a.jpg'', ''b.jpg''], map (map Fin) rows, submissions_file ''subs'')"
      "\<forall>row\<in>set rows.
          sum_list row = 1 \<and> \<bar>sum_list row - 1\<bar> \<le> 1 / 10 ^ 6 \<and> (\<forall>x\<in>set row. 0 \<le> x)"
    by blast
  have i1: "inj Fin" by (simp add: inj_def)
  have i2: "inj (map Fin)" using i1 by (rule inj_mapI)
  have "map (map Fin) rows = map (map Fin) [[5 / 16, 11 / 16, 0], [0, 7 / 16, 9 / 16]]"
    using r(1) v by (simp only: sum.inject prod.inject)
  then have "rows = [[5 / 16, 11 / 16, 0], [0, 7 / 16, 9 / 16]]"
    by (simp only: inj_map_eq_map [OF i2])
  then have r2: "list_all (\<lambda>row. sum_list row = 1 \<and> \<bar>sum_list row - 1\<bar> \<le> 1 / 10 ^ 6
                     \<and> list_all (\<lambda>x. 0 \<le> x) row)
                   [[5 / 16, 11 / 16, 0], [0, 7 / 16, 9 / 16 :: real]]"
    using r(2) by (simp only: list_all_iff)
  have h4': "list_all (\<lambda>w. 0 \<le> w) [3, 1 :: real]" by simp
  have h6': "list_all (list_all (\<lambda>row. sum_list row = 1)) [probs_a, probs_b]"
    using h6 by (simp add: list_all_iff)
  have h7': "list_all (list_all (list_all (\<lambda>x. 0 \<le> x))) [probs_a, probs_b]"
    using h7 by (simp add: list_all_iff)
  show ?thesis using h1 h2 h3 h4' h5 h6' h7' v r2 by blast
qed

text \<open>
  The claim C4 fails for five files that have a header and no item: the matrix passed on
  has five rows, of no entries, and each sums to 0. It fails as well for weights that are
  all zero: the rows are rows of NaN.
\<close>

theorem average_rows_sum_to_one_counterexample:
  "average header_only_files example_float ''subs''
     = Inr ([], [[], [], [], [], []], ''subs/xception_fine_tuned_averaged.csv'')
   \<and> map row_sum [[], [], [], [], []] = [Some 0, Some 0, Some 0, Some 0, Some 0]
   \<and> average_with one_file example_float ''subs'' [(''a.csv'', 0), (''b.csv'', 0)]
     = Inr ([''a.jpg'', ''b.jpg''],
            [[NaN, NaN, NaN], [NaN, NaN, NaN]],
            ''subs/xception_fine_tuned_averaged.csv'')
   \<and> map row_sum [[NaN, NaN, NaN], [NaN, NaN, NaN]] = [None, None]"
  by code_simp

subsection \<open>A single source\<close>

text \<open>
  C6, as the code has it. For one source with at least one item and a strictly positive
  weight \<open>w\<close>, \<open>average\<close> passes on the names of the source and a matrix of the shape of
  the source whose entry for the probability \<open>p\<close> is the quotient of the product \<open>p * w\<close>
  by \<open>w\<close>. The quotient is \<open>p\<close> for real numbers; in binary64 the product and the quotient
  are each rounded, and the entry can differ from \<open>p\<close> in the last bit.
\<close>

theorem average_single_source:
  assumes "0 < w"
    and "read_lines (join2 dir file_name) = Inr lines"
    and "parse_lines pyfloat (drop 1 lines) = Inr (names, rows)"
    and "rectangular rows"
    and "rows \<noteq> []"
  shows "\<exists>averaged.
           average_with read_lines pyfloat dir [(file_name, w)]
             = Inr (names, averaged, submissions_file dir)
         \<and> length averaged = length rows
         \<and> (\<forall>r<length rows.
               length (averaged ! r) = length (rows ! r)
             \<and> (\<forall>c<length (rows ! r). averaged ! r ! c = Fin (rows ! r ! c * w / w)))"
proof -
  have l: "load_sources read_lines pyfloat dir [(file_name, w)] [] = Inr (names, [rows], [w])"
    using assms(2-4) by (simp add: np_array2_def)
  let ?avg = "map (map (\<lambda>p. Fin (p * w / w))) rows"
  have "map (map (\<lambda>s. np_div s w)) (scale rows w) = ?avg"
    using assms(1) by (simp add: scale_def np_div_def comp_def)
  then have "combine [rows] [w] = Inr ?avg"
    using assms(5) by (simp add: combine_def same_shape_def)
  then have "average_with read_lines pyfloat dir [(file_name, w)]
               = Inr (names, ?avg, submissions_file dir)"
    using l by (simp add: average_with_def)
  moreover have "length ?avg = length rows" by simp
  moreover have "\<forall>r<length rows.
               length (?avg ! r) = length (rows ! r)
             \<and> (\<forall>c<length (rows ! r). ?avg ! r ! c = Fin (rows ! r ! c * w / w))"
    by simp
  ultimately show ?thesis by blast
qed

theorem average_single_source_witness:
  "(0::real) < 3
   \<and> one_file (join2 ''subs'' ''a.csv'')
       = Inr [''image_name,Type_1,Type_2,Type_3'', ''a.jpg,0.25,0.75,0\<newline>'', ''b.jpg,0,0.5,0.5\<newline>'']
   \<and> parse_lines example_float
         (drop 1 [''image_name,Type_1,Type_2,Type_3'', ''a.jpg,0.25,0.75,0\<newline>'', ''b.jpg,0,0.5,0.5\<newline>''])
       = Inr ([''a.jpg'', ''b.jpg''], probs_a)
   \<and> rectangular probs_a \<and> probs_a \<noteq> []
   \<and> average_with one_file example_float ''subs'' [(''a.csv'', 3)]
       = Inr ([''a.jpg'', ''b.jpg''],
              [[Fin (1 / 4 * 3 / 3), Fin (3 / 4 * 3 / 3), Fin (0 * 3 / 3)],
               [Fin (0 * 3 / 3), Fin (1 / 2 * 3 / 3), Fin (1 / 2 * 3 / 3)]],
              submissions_file ''subs'')"
proof -
  have h1: "(0::real) < 3" by simp
  have h2: "one_file (join2 ''subs'' ''a.csv'')
       = Inr [''image_name,Type_1,Type_2,Type_3'', ''a.jpg,0.25,0.75,0\<newline>'', ''b.jpg,0,0.5,0.5\<newline>'']"
    by code_simp
  have h3: "parse_lines example_float
         (drop 1 [''image_name,Type_1,Type_2,Type_3'', ''a.jpg,0.25,0.75,0\<newline>'', ''b.jpg,0,0.5,0.5\<newline>''])
       = Inr ([''a.jpg'', ''b.jpg''], probs_a)"
    by code_simp
  have h4: "rectangular probs_a" by code_simp
  have h5: "probs_a \<noteq> []" by (simp add: probs_a_def)
  have v: "average_with one_file example_float ''subs'' [(''a.csv'', 3)]
       = Inr ([''a.jpg'', ''b.jpg''],
              [[Fin (1 / 4 * 3 / 3), Fin (3 / 4 * 3 / 3), Fin (0 * 3 / 3)],
               [Fin (0 * 3 / 3), Fin (1 / 2 * 3 / 3), Fin (1 / 2 * 3 / 3)]],
              submissions_file ''subs'')"
    by code_simp
  from average_single_source [where read_lines = one_file and dir = "''subs''"
      and file_name = "''a.csv''", OF h1 h2 h3 h4 h5]
  show ?thesis using h1 h2 h3 h4 h5 v by blast
qed

text \<open>
  The claim C6 fails for a file that has a header and no item: the source has no row and
  the matrix passed on has one row, of no entries. It fails in binary64 for the probability
  0.75 and the weight 0.2, which is the binary64 number \<open>3602879701896397 / 2^54\<close>: the
  product is rounded, the quotient is rounded, and the entry is \<open>0.75 + 2^-53\<close>, printed
  as 0.7500000000000001.
\<close>

theorem average_single_source_counterexample:
  "one_file (join2 ''subs'' ''empty.csv'') = Inr [''image_name,Type_1,Type_2,Type_3'']
   \<and> parse_lines example_float (drop 1 [''image_name,Type_1,Type_2,Type_3'']) = Inr ([], [])
   \<and> average_with one_file example_float ''subs'' [(''empty.csv'', 1)]
       = Inr ([], [[]], ''subs/xception_fine_tuned_averaged.csv'')
   \<and> round_binary64 (3 / 4) = 3 / 4
   \<and> round_binary64 (1 / 5) = 3602879701896397 / 2 ^ 54
   \<and> single_source_entry_f64 (3 / 4) (3602879701896397 / 2 ^ 54) = 3 / 4 + 1 / 2 ^ 53"
  by code_simp

end
